theory Spec2Isabelle
  imports Main
begin

text \<open>
  A model of \<open>shouldupdate\<close>, a command-line tool that keeps a list of applications
  with their recorded versions in a TOML file and asks the GitHub API whether a newer
  release exists. The model follows the Go source function by function: the lookup of
  the latest release, the store (\<open>loadConfig\<close>, \<open>saveConfig\<close>) and the handlers of
  the commands \<open>remove\<close> and \<open>check\<close>. The HTTP client, the JSON and TOML
  libraries and the file system are outside the program; they appear as parameters and
  as a small model of the disk.
\<close>

section \<open>Go strings\<close>

text \<open>
  A Go string is a sequence of bytes; \<^typ>\<open>string\<close> is a list of 8-bit characters.
  The functions of package \<open>strings\<close> that the program calls are written out below,
  after their library definitions.
\<close>

definition HasPrefix :: "string \<Rightarrow> string \<Rightarrow> bool" where
  \<comment> \<open>\<open>len(s) >= len(prefix) && s[:len(prefix)] == prefix\<close>\<close>
  "HasPrefix s prefix \<longleftrightarrow> length prefix \<le> length s \<and> take (length prefix) s = prefix"

definition TrimPrefix :: "string \<Rightarrow> string \<Rightarrow> string" where
  \<comment> \<open>\<open>if HasPrefix(s, prefix) { return s[len(prefix):] }; return s\<close>\<close>
  "TrimPrefix s prefix = (if HasPrefix s prefix then drop (length prefix) s else s)"

fun Contains :: "string \<Rightarrow> string \<Rightarrow> bool" where
  \<comment> \<open>\<open>Index(s, substr) >= 0\<close>: \<open>substr\<close> starts at some position of \<open>s\<close>\<close>
  "Contains [] substr = HasPrefix [] substr"
| "Contains (c # s) substr = (HasPrefix (c # s) substr \<or> Contains s substr)"

definition digit :: "nat \<Rightarrow> char" where
  "digit d = char_of (of_char CHR ''0'' + d)"

function digits :: "nat \<Rightarrow> string" where
  "digits n = (if n < 10 then [digit n] else digits (n div 10) @ [digit (n mod 10)])"
  by pat_completeness auto
termination
  by (relation "measure (\<lambda>n. n)") auto

definition Itoa :: "int \<Rightarrow> string" where
  \<comment> \<open>the verb \<open>%d\<close> of \<open>fmt\<close> on an \<open>int\<close>\<close>
  "Itoa i = (if i < 0 then CHR ''-'' # digits (nat (- i)) else digits (nat i))"

definition quoted :: "string \<Rightarrow> string" where
  \<comment> \<open>the format fragment \<open>'%s'\<close>: the argument between two apostrophes\<close>
  "quoted s = CHR 0x27 # s @ [CHR 0x27]"

fun string_less :: "string \<Rightarrow> string \<Rightarrow> bool" where
  \<comment> \<open>Go's \<open><\<close> on strings: the first differing byte decides, a proper prefix is smaller\<close>
  "string_less [] [] = False"
| "string_less [] (b # t) = True"
| "string_less (a # s) [] = False"
| "string_less (a # s) (b # t) =
     (if (of_char a :: nat) < of_char b then True
      else if (of_char b :: nat) < of_char a then False
      else string_less s t)"

definition byte_order :: "(char \<times> char) set" where
  \<comment> \<open>the order of bytes by their numeric value, for the lexicographic order of the
      specification (\<^const>\<open>lexord\<close>)\<close>
  "byte_order = {(a, b). (of_char a :: nat) < of_char b}"

section \<open>Release Lookup\<close>

text \<open>
  \<open>GitHubReleaseInfo\<close> and the anonymous error struct of
  \<open>getLatestVersionGitHubImpl\<close>. A field that the JSON body does not have is the empty
  string after decoding, as in Go.
\<close>

record GitHubReleaseInfo =
  TagName :: string
  Name :: string
  Body :: string
  HTMLURL :: string

record ghError =
  Message :: string
  DocumentationURL :: string

record request =
  Method :: string
  URL :: string
  Header :: "string \<rightharpoonup> string"

record response =
  StatusCode :: int
  RespBody :: string

text \<open>
  What lies outside the program: the URL parser inside \<open>http.NewRequest\<close>, the
  server reached by \<open>client.Do\<close>, and the two uses of \<open>json.Decoder.Decode\<close>.
  Each is a function from its input to an error message (\<open>Inl\<close>) or a value.
\<close>

record http_env =
  url_Parse :: "string \<Rightarrow> string option"
  client_Do :: "request \<Rightarrow> string + response"
  Decode_release :: "string \<Rightarrow> string + GitHubReleaseInfo"
  Decode_ghError :: "string \<Rightarrow> string + ghError"

definition NewRequest :: "http_env \<Rightarrow> string \<Rightarrow> string \<Rightarrow> string + request" where
  \<comment> \<open>\<open>http.NewRequest(method, url, nil)\<close>: fails when the URL does not parse\<close>
  "NewRequest env method url =
     (case url_Parse env url of
        Some err \<Rightarrow> Inl err
      | None \<Rightarrow> Inr \<lparr>Method = method, URL = url, Header = Map.empty\<rparr>)"

definition Header_Set :: "request \<Rightarrow> string \<Rightarrow> string \<Rightarrow> request" where
  "Header_Set req k v = req\<lparr>Header := (Header req)(k \<mapsto> v)\<rparr>"

text \<open>
  The failures of Release Lookup, one constructor for each \<open>return "", err\<close> of the
  source in its order, each carrying the error's message.
\<close>

datatype lookup_error =
    ValidationError string
  | RequestError string
  | NetworkError string
  | APIError string
  | DecodeError string
  | NotFoundTag string

definition api_error_message :: "http_env \<Rightarrow> string \<Rightarrow> string \<Rightarrow> response \<Rightarrow> string" where
  \<comment> \<open>the \<open>strings.Builder\<close> of the branch \<open>resp.StatusCode != http.StatusOK\<close>\<close>
  "api_error_message env appIdentifier url resp =
     (let errorMsg = ''GitHub API error for '' @ appIdentifier @ '' (status '' @
                     Itoa (StatusCode resp) @ '')''
      in (case Decode_ghError env (RespBody resp) of
            Inr ghe \<Rightarrow>
              (if Message ghe \<noteq> [] then
                 (let errorMsg = errorMsg @ '': '' @ Message ghe
                  in (if DocumentationURL ghe \<noteq> []
                      then errorMsg @ '' (see '' @ DocumentationURL ghe @ '')''
                      else errorMsg))
               else errorMsg @ '' (URL: '' @ url @ '')'')
          | Inl err \<Rightarrow> errorMsg @ '' (URL: '' @ url @ '')''))"

definition getLatestVersionGitHubImpl ::
  "http_env \<Rightarrow> string \<Rightarrow> string \<Rightarrow> (lookup_error + string) \<times> request list" where
  \<comment> \<open>returns the result and the requests handed to \<open>client.Do\<close>, in order\<close>
  "getLatestVersionGitHubImpl env appIdentifier apiBaseURL =
     (if \<not> Contains appIdentifier ''/'' then
        (Inl (ValidationError (''invalid application identifier: expected '' @
                quoted ''owner/repo'' @ '', got '' @ quoted appIdentifier)), [])
      else
        let baseURL = (if apiBaseURL \<noteq> [] then apiBaseURL else ''https://api.github.com'');
            url = baseURL @ ''/repos/'' @ appIdentifier @ ''/releases/latest''
        in (case NewRequest env ''GET'' url of
             Inl err \<Rightarrow>
               (Inl (RequestError (''internal error creating request for '' @ appIdentifier @
                       '': '' @ err)), [])
           | Inr req0 \<Rightarrow>
               (let req = Header_Set (Header_Set req0 ''User-Agent'' ''ShouldUpdateApp/1.0'')
                           ''Accept'' ''application/vnd.github.v3+json''
                in (case client_Do env req of
                      Inl err \<Rightarrow>
                        (Inl (NetworkError (''network error fetching release info for '' @
                                appIdentifier @ '' from '' @ url @ '': '' @ err)), [req])
                    | Inr resp \<Rightarrow>
                        (if StatusCode resp \<noteq> 200 then
                           (Inl (APIError (api_error_message env appIdentifier url resp)), [req])
                         else
                           (case Decode_release env (RespBody resp) of
                              Inl err \<Rightarrow>
                                (Inl (DecodeError (''error decoding JSON response for '' @
                                        appIdentifier @ '' from '' @ url @ '': '' @ err)), [req])
                            | Inr releaseInfo \<Rightarrow>
                                (if TagName releaseInfo = [] then
                                   (Inl (NotFoundTag (''no version tag (tag_name) found in the latest release for '' @
                                           appIdentifier @ '' (URL: '' @ url @ '')'')), [req])
                                 else (Inr (TrimPrefix (TagName releaseInfo) ''v''), [req]))))))))"

definition request_url :: "string \<Rightarrow> string \<Rightarrow> string" where
  \<comment> \<open>the endpoint of an identifier: \<open>fmt.Sprintf("%s/repos/%s/releases/latest", ...)\<close>
      with the default of \<open>baseURL\<close>\<close>
  "request_url appIdentifier apiBaseURL =
     (if apiBaseURL \<noteq> [] then apiBaseURL else ''https://api.github.com'') @
     ''/repos/'' @ appIdentifier @ ''/releases/latest''"

definition lookup_request :: "string \<Rightarrow> request" where
  \<comment> \<open>the GET request for a URL with the two headers that the lookup sets\<close>
  "lookup_request url =
     \<lparr>Method = ''GET'', URL = url,
      Header = [''User-Agent'' \<mapsto> ''ShouldUpdateApp/1.0'',
                ''Accept'' \<mapsto> ''application/vnd.github.v3+json'']\<rparr>"

section \<open>Version Store\<close>

type_synonym Config = "string \<rightharpoonup> string"

text \<open>
  The file system as \<open>loadConfig\<close> and \<open>saveConfig\<close> see it through package \<open>os\<close>:
  regular files with their contents, directories, and the paths that the process may
  not use (a directory that it may not search, a file that it may not open). A path is
  resolved through its parent directories, so a path below a regular file fails with
  \<open>ENOTDIR\<close> and a path below a missing directory with \<open>ENOENT\<close>. Paths are taken
  as \<open>filepath.Join\<close> and the tests give them, without \<open>.\<close> and \<open>..\<close> elements;
  the root and the working directory are not named. The journal records every call
  that may change the disk.
\<close>

datatype errno = ENOENT | EACCES | EISDIR | ENOTDIR

datatype syscall = MkdirAll_call string | WriteFile_call string string

record disk =
  files :: "string \<rightharpoonup> string"
  dirs :: "string set"
  denied :: "string set"
  journal :: "syscall list"

fun ancestors_from :: "string \<Rightarrow> string \<Rightarrow> string list" where
  \<comment> \<open>\<open>pre\<close> is the part of the path already read\<close>
  "ancestors_from pre [] = []"
| "ancestors_from pre (c # s) =
     (if c = CHR ''/'' \<and> pre \<noteq> [] \<and> last pre \<noteq> CHR ''/''
      then pre # ancestors_from (pre @ [c]) s
      else ancestors_from (pre @ [c]) s)"

definition ancestors :: "string \<Rightarrow> string list" where
  \<comment> \<open>the parent directories of a path, outermost first:
      \<open>a\<close> and \<open>a/b\<close> for \<open>a/b/versions.toml\<close>\<close>
  "ancestors name = ancestors_from [] name"

fun walk :: "string list \<Rightarrow> disk \<Rightarrow> errno option" where
  \<comment> \<open>the kernel's walk through the parent directories of a path\<close>
  "walk [] d = None"
| "walk (q # qs) d =
     (if q \<in> dom (files d) then Some ENOTDIR
      else if q \<notin> dirs d then Some ENOENT
      else if q \<in> denied d then Some EACCES
      else walk qs d)"

definition os_Stat :: "string \<Rightarrow> disk \<Rightarrow> errno option" where
  "os_Stat name d =
     (case walk (ancestors name) d of
        Some err \<Rightarrow> Some err
      | None \<Rightarrow>
          (if name \<in> dom (files d) \<or> name \<in> dirs d then None else Some ENOENT))"

definition os_IsNotExist :: "errno option \<Rightarrow> bool" where
  "os_IsNotExist err \<longleftrightarrow> err = Some ENOENT"

definition os_ReadFile :: "string \<Rightarrow> disk \<Rightarrow> errno + string" where
  "os_ReadFile name d =
     (case walk (ancestors name) d of
        Some err \<Rightarrow> Inl err
      | None \<Rightarrow>
          (case files d name of
             Some data \<Rightarrow> (if name \<in> denied d then Inl EACCES else Inr data)
           | None \<Rightarrow> (if name \<in> dirs d then Inl EISDIR else Inl ENOENT)))"

fun mkdirs :: "string list \<Rightarrow> disk \<Rightarrow> errno option \<times> disk" where
  \<comment> \<open>makes the directories of the list that are missing, outermost first; a
      directory that exists is left as it is\<close>
  "mkdirs [] d = (None, d)"
| "mkdirs (q # qs) d =
     (if q \<in> dom (files d) then (Some ENOTDIR, d)
      else if q \<in> dirs d then
        (if qs = [] then (None, d)
         else if q \<in> denied d then (Some EACCES, d)
         else mkdirs qs d)
      else if q \<in> denied d then (Some EACCES, d)
      else mkdirs qs (d\<lparr>dirs := insert q (dirs d)\<rparr>))"

definition os_MkdirAll :: "string \<Rightarrow> disk \<Rightarrow> errno option \<times> disk" where
  \<comment> \<open>creates the directory and the parents that it needs\<close>
  "os_MkdirAll path d =
     mkdirs (ancestors path @ [path]) (d\<lparr>journal := journal d @ [MkdirAll_call path]\<rparr>)"

definition os_WriteFile :: "string \<Rightarrow> string \<Rightarrow> disk \<Rightarrow> errno option \<times> disk" where
  \<comment> \<open>creates the file or truncates it, then writes \<open>data\<close>\<close>
  "os_WriteFile name data d =
     (let d1 = d\<lparr>journal := journal d @ [WriteFile_call name data]\<rparr>
      in (case walk (ancestors name) d of
            Some err \<Rightarrow> (Some err, d1)
          | None \<Rightarrow>
              (if name \<in> dirs d then (Some EISDIR, d1)
               else if name \<in> denied d then (Some EACCES, d1)
               else (None, d1\<lparr>files := (files d)(name \<mapsto> data)\<rparr>))))"

text \<open>
  The package variable \<open>configFile\<close>, set by \<open>init\<close> (and by the tests), and the
  library functions of the store: \<open>filepath.Dir\<close>, \<open>toml.Marshal\<close> and
  \<open>toml.Unmarshal\<close>, the last one with the map it decodes into.
\<close>

record store_env =
  configFile :: string
  filepath_Dir :: "string \<Rightarrow> string"
  toml_Marshal :: "Config \<Rightarrow> string + string"
  toml_Unmarshal :: "string \<Rightarrow> Config \<Rightarrow> string + Config"

text \<open>
  The failures of the store, one constructor for each \<open>fmt.Errorf\<close> of
  \<open>loadConfig\<close> and \<open>saveConfig\<close> in their order, with the path where the message
  has one and the cause.
\<close>

datatype config_error =
    ConfigReadError string errno
  | ConfigParseError string string
  | ConfigFormatError string
  | ConfigDirError string errno
  | ConfigWriteError string errno

definition loadConfig :: "store_env \<Rightarrow> disk \<Rightarrow> config_error + Config" where
  "loadConfig env d =
     (let config = Map.empty
      in if os_IsNotExist (os_Stat (configFile env) d) then Inr config
         else (case os_ReadFile (configFile env) d of
                 Inl err \<Rightarrow> Inl (ConfigReadError (configFile env) err)
               | Inr data \<Rightarrow>
                   (case toml_Unmarshal env data config of
                      Inl err \<Rightarrow> Inl (ConfigParseError (configFile env) err)
                    | Inr config' \<Rightarrow> Inr config')))"

definition saveConfig :: "store_env \<Rightarrow> Config \<Rightarrow> disk \<Rightarrow> config_error option \<times> disk" where
  "saveConfig env config d =
     (case toml_Marshal env config of
        Inl err \<Rightarrow> (Some (ConfigFormatError err), d)
      | Inr data \<Rightarrow>
          (let dirPath = filepath_Dir env (configFile env)
           in (case os_MkdirAll dirPath d of
                 (Some err, d1) \<Rightarrow> (Some (ConfigDirError dirPath err), d1)
               | (None, d1) \<Rightarrow>
                   (case os_WriteFile (configFile env) data d1 of
                      (Some err, d2) \<Rightarrow> (Some (ConfigWriteError (configFile env) err), d2)
                    | (None, d2) \<Rightarrow> (None, d2)))))"

section \<open>Commands\<close>

text \<open>
  What a command prints, one constructor for each print statement of the handlers
  below, with the arguments of its format. The lines of \<open>log.Printf\<close> in the store
  are diagnostics and are left out.
\<close>

datatype printed =
    Error_CouldNotLoad config_error
  | Info_NothingToRemove string
  | Error_CouldNotSaveAfterRemoving string config_error
  | Success_Removed string
  | Info_NoApplications
  | Error_NotInManagedList string
  | Message_CheckingAll
  | Info_Skipping string
  | Checking string
  | Newline
  | Error_FailedToCheck string lookup_error
  | UpToDate string string
  | UpdateAvailable string string
  | VersionDiscrepancy string string

definition handleRemoveCmd :: "store_env \<Rightarrow> string \<Rightarrow> disk \<Rightarrow> printed list \<times> disk" where
  "handleRemoveCmd env appName d =
     (case loadConfig env d of
        Inl err \<Rightarrow> ([Error_CouldNotLoad err], d)
      | Inr config \<Rightarrow>
          (if config appName = None then ([Info_NothingToRemove appName], d)
           else (let config' = config(appName := None)
                 in (case saveConfig env config' d of
                       (Some err, d') \<Rightarrow> ([Error_CouldNotSaveAfterRemoving appName err], d')
                     | (None, d') \<Rightarrow> ([Success_Removed appName], d')))))"

definition checkAppVersion ::
  "(string \<Rightarrow> string \<Rightarrow> lookup_error + string) \<Rightarrow> string \<Rightarrow> string \<Rightarrow> printed list" where
  \<comment> \<open>the first argument is the package variable \<open>getLatestVersion\<close>;
      \<open>latestVersion > currentVersion\<close> is \<open>string_less currentVersion latestVersion\<close>;
      the last three constructors print current, then latest\<close>
  "checkAppVersion getLatestVersion appName currentVersion =
     (if \<not> Contains appName ''/'' then [Info_Skipping appName]
      else (case getLatestVersion appName [] of
              Inl err \<Rightarrow> [Checking appName, Newline, Error_FailedToCheck appName err]
            | Inr latestVersion \<Rightarrow>
                (if latestVersion = currentVersion then
                   [Checking appName, UpToDate currentVersion latestVersion]
                 else (let isUpgrade = string_less currentVersion latestVersion
                       in if isUpgrade then
                            [Checking appName, UpdateAvailable currentVersion latestVersion]
                          else
                            [Checking appName, VersionDiscrepancy currentVersion latestVersion]))))"

text \<open>
  \<open>for appName, currentVersion := range config\<close>: Go visits the entries of a map in an
  order that it does not specify. The order is the list of keys \<open>ks\<close>, which the
  caller takes from the runtime.
\<close>

fun range_config ::
  "(string \<Rightarrow> string \<Rightarrow> lookup_error + string) \<Rightarrow> Config \<Rightarrow> string list \<Rightarrow> printed list" where
  "range_config getLatestVersion config [] = []"
| "range_config getLatestVersion config (appName # ks) =
     (case config appName of
        Some currentVersion \<Rightarrow> checkAppVersion getLatestVersion appName currentVersion
      | None \<Rightarrow> []) @ range_config getLatestVersion config ks"

definition handleCheckCmd ::
  "store_env \<Rightarrow> (string \<Rightarrow> string \<Rightarrow> lookup_error + string) \<Rightarrow> (Config \<Rightarrow> string list) \<Rightarrow>
   string \<Rightarrow> disk \<Rightarrow> printed list" where
  \<comment> \<open>\<open>range_keys\<close> is the order in which the runtime visits the keys of a map\<close>
  "handleCheckCmd env getLatestVersion range_keys specificApp d =
     (case loadConfig env d of
        Inl err \<Rightarrow> [Error_CouldNotLoad err]
      | Inr config \<Rightarrow>
          (if config = Map.empty then [Info_NoApplications]
           else if specificApp \<noteq> [] then
             (case config specificApp of
                None \<Rightarrow> [Error_NotInManagedList specificApp]
              | Some currentVersion \<Rightarrow> checkAppVersion getLatestVersion specificApp currentVersion)
           else Message_CheckingAll # range_config getLatestVersion config (range_keys config)))"

fun started :: "printed \<Rightarrow> string option" where
  \<comment> \<open>the application whose check a line opens: \<open>checkAppVersion\<close> prints one such line
      first, whatever happens next\<close>
  "started (Info_Skipping appName) = Some appName"
| "started (Checking appName) = Some appName"
| "started _ = None"

section \<open>Test doubles\<close>

text \<open>
  The doubles of the test files: a server that answers every request with one fixed
  response (\<open>httptest.NewServer\<close>), a lookup that answers from a table
  (\<open>mockResponses\<close>), and a store on a test file. The decoders know the bodies that
  the doubles send. The TOML double writes an entry as the library does for a key and
  a value without characters that need an escape, the key bare when it may be, and
  like the library it refuses to read a file that is not valid UTF-8.
\<close>

definition dq :: "string \<Rightarrow> string" where
  "dq s = CHR 0x22 # s @ [CHR 0x22]"

definition body_release :: "string \<Rightarrow> string" where
  "body_release tag = ''{'' @ dq ''tag_name'' @ '': '' @ dq tag @ ''}''"

definition body_not_found :: string where
  "body_not_found = ''{'' @ dq ''message'' @ '': '' @ dq ''Not Found'' @ '', '' @
     dq ''documentation_url'' @ '': '' @ dq ''https://docs.github.com/rest'' @ ''}''"

definition mock_Decode_release :: "string \<Rightarrow> string + GitHubReleaseInfo" where
  "mock_Decode_release body =
     (if body = body_release ''v1.2.3'' then
        Inr \<lparr>TagName = ''v1.2.3'', Name = [], Body = [], HTMLURL = []\<rparr>
      else if body = body_release ''v'' then
        Inr \<lparr>TagName = ''v'', Name = [], Body = [], HTMLURL = []\<rparr>
      else Inl ''unexpected EOF'')"

definition mock_Decode_ghError :: "string \<Rightarrow> string + ghError" where
  "mock_Decode_ghError body =
     (if body = body_not_found then
        Inr \<lparr>Message = ''Not Found'', DocumentationURL = ''https://docs.github.com/rest''\<rparr>
      else Inl ''invalid character'')"

definition mock_server :: "response \<Rightarrow> http_env" where
  "mock_server resp =
     \<lparr>url_Parse = (\<lambda>url. None),
      client_Do = (\<lambda>req. Inr resp),
      Decode_release = mock_Decode_release,
      Decode_ghError = mock_Decode_ghError\<rparr>"

definition mock_getLatestVersion :: "string \<Rightarrow> string \<Rightarrow> lookup_error + string" where
  "mock_getLatestVersion appIdentifier apiBaseURL =
     (if appIdentifier = ''owner/appA'' then Inr ''1.0.0''
      else if appIdentifier = ''owner/appB'' then Inr ''1.1.0''
      else Inl (NetworkError ''mock network error''))"

definition bare_key_chars :: string where
  "bare_key_chars = ''ABCDEFGHIJKLMNOPQRSTUVWXYZabcdefghijklmnopqrstuvwxyz0123456789_-''"

definition toml_key :: "string \<Rightarrow> string" where
  "toml_key k = (if k \<noteq> [] \<and> set k \<subseteq> set bare_key_chars then k else dq k)"

definition toml_line :: "string \<Rightarrow> string \<Rightarrow> string" where
  "toml_line k v = toml_key k @ '' = '' @ dq v @ [CHR 0x0A]"

definition toml_lines :: "(string \<times> string) list \<Rightarrow> string" where
  "toml_lines tbl = concat (map (\<lambda>(k, v). toml_line k v) tbl)"

fun utf8_scan :: "nat \<Rightarrow> nat \<Rightarrow> nat \<Rightarrow> string \<Rightarrow> bool" where
  \<comment> \<open>\<open>n\<close> continuation bytes are still due, the next one between \<open>lo\<close> and \<open>hi\<close>\<close>
  "utf8_scan n lo hi [] = (n = 0)"
| "utf8_scan n lo hi (c # s) =
     (let b = (of_char c :: nat)
      in if n = 0 then
           (if b < 0x80 then utf8_scan 0 0x80 0xBF s
            else if 0xC2 \<le> b \<and> b \<le> 0xDF then utf8_scan 1 0x80 0xBF s
            else if b = 0xE0 then utf8_scan 2 0xA0 0xBF s
            else if b = 0xED then utf8_scan 2 0x80 0x9F s
            else if 0xE1 \<le> b \<and> b \<le> 0xEF then utf8_scan 2 0x80 0xBF s
            else if b = 0xF0 then utf8_scan 3 0x90 0xBF s
            else if b = 0xF4 then utf8_scan 3 0x80 0x8F s
            else if 0xF1 \<le> b \<and> b \<le> 0xF3 then utf8_scan 3 0x80 0xBF s
            else False)
         else lo \<le> b \<and> b \<le> hi \<and> utf8_scan (n - 1) 0x80 0xBF s)"

definition utf8_valid :: "string \<Rightarrow> bool" where
  "utf8_valid s = utf8_scan 0 0x80 0xBF s"

definition mock_Marshal :: "string list \<Rightarrow> Config \<Rightarrow> string + string" where
  \<comment> \<open>writes the entries of the keys that the test uses, in the order given\<close>
  "mock_Marshal keys config =
     Inr (concat (map (\<lambda>k. case config k of None \<Rightarrow> [] | Some v \<Rightarrow> toml_line k v) keys))"

definition mock_Unmarshal :: "(string \<times> string) list list \<Rightarrow> string \<Rightarrow> Config \<Rightarrow> string + Config" where
  \<comment> \<open>reads the files that the test writes, adding their entries to the map given\<close>
  "mock_Unmarshal tables data config =
     (if \<not> utf8_valid data then Inl ''toml: invalid UTF-8 byte''
      else (case find (\<lambda>tbl. toml_lines tbl = data) tables of
              Some tbl \<Rightarrow> Inr (config ++ map_of tbl)
            | None \<Rightarrow> Inl ''toml: expected key''))"

definition mock_store :: "string list \<Rightarrow> (string \<times> string) list list \<Rightarrow> store_env" where
  "mock_store keys tables =
     \<lparr>configFile = ''test_versions.toml'',
      filepath_Dir = (\<lambda>path. ''.''),
      toml_Marshal = mock_Marshal keys,
      toml_Unmarshal = mock_Unmarshal tables\<rparr>"

definition empty_disk :: disk where
  "empty_disk = \<lparr>files = Map.empty, dirs = {''.''}, denied = {}, journal = []\<rparr>"

definition remove_table :: "(string \<times> string) list" where
  \<comment> \<open>\<open>RemoveExistingApplication\<close>\<close>
  "remove_table = [(''anotherApp'', ''2.0.0''), (''appToRemove'', ''1.0.0'')]"

definition remove_store :: store_env where
  "remove_store =
     mock_store [''anotherApp'', ''appToRemove''] [remove_table, [(''anotherApp'', ''2.0.0'')], []]"

definition saved_disk :: disk where
  \<comment> \<open>the disk after \<open>saveConfig\<close> of \<open>remove_table\<close> on the empty disk\<close>
  "saved_disk =
     empty_disk\<lparr>journal := [MkdirAll_call ''.'',
                               WriteFile_call ''test_versions.toml'' (toml_lines remove_table)],
                  files := [''test_versions.toml'' \<mapsto> toml_lines remove_table]\<rparr>"

definition check_table :: "(string \<times> string) list" where
  \<comment> \<open>\<open>CheckAllApps\<close>, with an application whose lookup fails\<close>
  "check_table =
     [(''owner/appA'', ''1.0.0''), (''owner/appB'', ''0.5.0''), (''invalidAppC'', ''2.0.0''),
      (''owner/app4'', ''1.0.0'')]"

definition check_store :: store_env where
  "check_store = mock_store (map fst check_table) [check_table]"

definition check_disk :: disk where
  "check_disk = empty_disk\<lparr>files := [''test_versions.toml'' \<mapsto> toml_lines check_table]\<rparr>"



definition nested_store :: store_env where
  \<comment> \<open>a store whose file lies below \<open>f\<close>\<close>
  "nested_store = remove_store\<lparr>configFile := ''f/versions.toml'',
                                filepath_Dir := (\<lambda>path. ''f'')\<rparr>"

definition file_f_disk :: disk where
  \<comment> \<open>a disk on which \<open>f\<close> is a regular file\<close>
  "file_f_disk = empty_disk\<lparr>files := [''f'' \<mapsto> []]\<rparr>"

definition mock_range_keys :: "Config \<Rightarrow> string list" where
  \<comment> \<open>one order in which the runtime may visit the applications of the test\<close>
  "mock_range_keys config =
     filter (\<lambda>k. config k \<noteq> None) [''invalidAppC'', ''owner/app4'', ''owner/appB'', ''owner/appA'']"

section \<open>Properties of the string functions\<close>

lemma Contains_prefix: "HasPrefix s sub \<Longrightarrow> Contains s sub"
  by (cases s) simp_all

lemma Contains_append_left: "Contains s sub \<Longrightarrow> Contains (xs @ s) sub"
  by (induction xs) simp_all

lemma HasPrefix_char: "HasPrefix s [c] \<longleftrightarrow> (\<exists>t. s = c # t)"
  by (cases s) (auto simp: HasPrefix_def)

lemma Contains_char: "Contains s [c] \<longleftrightarrow> c \<in> set s"
  by (induction s) (auto simp: HasPrefix_char HasPrefix_def)

lemma TrimPrefix_char:
  "TrimPrefix s [c] = (case s of [] \<Rightarrow> [] | a # t \<Rightarrow> if a = c then t else s)"
  by (cases s) (auto simp: TrimPrefix_def HasPrefix_def)

lemma string_less_lexord: "string_less s t \<longleftrightarrow> (s, t) \<in> lexord byte_order"
  by (induction s t rule: string_less.induct) (auto simp: byte_order_def)

lemma Contains_Nil: "Contains s []"
  by (induction s) (simp_all add: HasPrefix_def)

lemma HasPrefix_appendI: "HasPrefix a sub \<Longrightarrow> HasPrefix (a @ b) sub"
  by (auto simp: HasPrefix_def)

lemma Contains_appendI1: "Contains a sub \<Longrightarrow> Contains (a @ b) sub"
proof (induction a)
  case Nil
  then have "sub = []" by (simp add: HasPrefix_def)
  then show ?case by (simp add: Contains_Nil)
next
  case (Cons c a)
  then show ?case using HasPrefix_appendI [of "c # a" sub b] by auto
qed

lemma Contains_appendI2: "Contains b sub \<Longrightarrow> Contains (a @ b) sub"
  by (rule Contains_append_left)

lemma Contains_refl: "Contains s s"
  by (rule Contains_prefix) (simp add: HasPrefix_def)

lemmas Contains_intros = Contains_refl Contains_appendI1 Contains_appendI2

section \<open>Properties of Release Lookup\<close>

lemma lookup_invalid:
  "\<not> Contains appIdentifier ''/'' \<Longrightarrow>
   getLatestVersionGitHubImpl env appIdentifier apiBaseURL =
     (Inl (ValidationError (''invalid application identifier: expected '' @
             quoted ''owner/repo'' @ '', got '' @ quoted appIdentifier)), [])"
  by (simp add: getLatestVersionGitHubImpl_def)

lemma lookup_request_sent:
  assumes "getLatestVersionGitHubImpl env appIdentifier apiBaseURL = (res, req # reqs)"
  shows "Contains appIdentifier ''/'' \<and> reqs = [] \<and>
         url_Parse env (request_url appIdentifier apiBaseURL) = None \<and>
         req = lookup_request (request_url appIdentifier apiBaseURL)"
  using assms
  by (auto simp: getLatestVersionGitHubImpl_def NewRequest_def Header_Set_def Let_def
        request_url_def lookup_request_def
      split: if_splits sum.splits option.splits)

lemma lookup_response:
  assumes "getLatestVersionGitHubImpl env appIdentifier apiBaseURL = (res, [req])"
    and "client_Do env req = Inr resp"
  shows "res =
     (if StatusCode resp \<noteq> 200 then
        Inl (APIError (api_error_message env appIdentifier (URL req) resp))
      else (case Decode_release env (RespBody resp) of
              Inl err \<Rightarrow>
                Inl (DecodeError (''error decoding JSON response for '' @
                       appIdentifier @ '' from '' @ URL req @ '': '' @ err))
            | Inr releaseInfo \<Rightarrow>
                (if TagName releaseInfo = [] then
                   Inl (NotFoundTag (''no version tag (tag_name) found in the latest release for '' @
                          appIdentifier @ '' (URL: '' @ URL req @ '')''))
                 else Inr (TrimPrefix (TagName releaseInfo) ''v''))))"
  using assms
  by (auto simp: getLatestVersionGitHubImpl_def NewRequest_def Header_Set_def Let_def
      split: if_splits sum.splits option.splits)

lemma lookup_valid_not_validation:
  "Contains appIdentifier ''/'' \<Longrightarrow>
   fst (getLatestVersionGitHubImpl env appIdentifier apiBaseURL) \<noteq> Inl (ValidationError m)"
  by (simp add: getLatestVersionGitHubImpl_def NewRequest_def Let_def
      split: sum.split option.split)

lemma lookup_valid_request:
  "Contains appIdentifier ''/'' \<Longrightarrow>
   url_Parse env (request_url appIdentifier apiBaseURL) = None \<Longrightarrow>
   snd (getLatestVersionGitHubImpl env appIdentifier apiBaseURL) =
     [lookup_request (request_url appIdentifier apiBaseURL)]"
  by (simp add: getLatestVersionGitHubImpl_def NewRequest_def Header_Set_def Let_def
        request_url_def lookup_request_def
      split: sum.split)

lemma api_error_message_contains:
  fixes env appIdentifier url resp
  defines "m \<equiv> api_error_message env appIdentifier url resp"
  shows "Contains m (Itoa (StatusCode resp))"
    and "Contains m appIdentifier"
    and "Decode_ghError env (RespBody resp) = Inr ghe \<Longrightarrow> Message ghe \<noteq> [] \<Longrightarrow>
           Contains m (Message ghe)"
    and "Decode_ghError env (RespBody resp) = Inr ghe \<Longrightarrow> Message ghe \<noteq> [] \<Longrightarrow>
           DocumentationURL ghe \<noteq> [] \<Longrightarrow> Contains m (DocumentationURL ghe)"
    and "Decode_ghError env (RespBody resp) = Inr ghe \<Longrightarrow> Message ghe = [] \<Longrightarrow>
           Contains m url"
    and "Decode_ghError env (RespBody resp) = Inl err \<Longrightarrow> Contains m url"
  unfolding m_def api_error_message_def Let_def
  by (cases "Decode_ghError env (RespBody resp)"; cases "DocumentationURL ghe = []";
      simp del: append.simps append_assoc; fast intro: Contains_intros)+

lemmas mock_lookup_defs =
  getLatestVersionGitHubImpl_def NewRequest_def Header_Set_def mock_server_def
  mock_Decode_release_def mock_Decode_ghError_def body_release_def body_not_found_def
  dq_def lookup_request_def request_url_def HasPrefix_def TrimPrefix_def quoted_def Let_def

text \<open>
  C3. When the server answers the request of the lookup with status 200 and the body
  decodes to a release whose \<open>tag_name\<close> is a non-empty string \<open>t\<close>, the lookup
  succeeds; its result is \<open>t\<close> without its first byte when that byte is \<open>v\<close>, and
  \<open>t\<close> itself otherwise. So one leading \<open>v\<close> is removed and no more.
\<close>

theorem lookup_strips_one_v:
  assumes "getLatestVersionGitHubImpl env appIdentifier apiBaseURL = (res, [req])"
    and "client_Do env req = Inr resp"
    and "StatusCode resp = 200"
    and "Decode_release env (RespBody resp) = Inr releaseInfo"
    and "TagName releaseInfo = t"
    and "t \<noteq> []"
  shows "res = Inr (if hd t = CHR ''v'' then tl t else t)"
proof -
  have "res = Inr (TrimPrefix t ''v'')"
    using lookup_response [OF assms(1,2)] assms(3-6) by simp
  moreover have "TrimPrefix t ''v'' = (if hd t = CHR ''v'' then tl t else t)"
    using assms(6) by (cases t) (simp_all add: TrimPrefix_char)
  ultimately show ?thesis by simp
qed

theorem lookup_strips_one_v_witness:
  "getLatestVersionGitHubImpl
     (mock_server \<lparr>StatusCode = 200, RespBody = body_release ''v1.2.3''\<rparr>)
     ''owner/repo'' ''http://127.0.0.1:8080'' =
   (Inr ''1.2.3'', [lookup_request ''http://127.0.0.1:8080/repos/owner/repo/releases/latest''])"
proof -
  let ?resp = "\<lparr>StatusCode = 200, RespBody = body_release ''v1.2.3''\<rparr>"
  let ?env = "mock_server ?resp"
  let ?req = "lookup_request ''http://127.0.0.1:8080/repos/owner/repo/releases/latest''"
  let ?info = "\<lparr>TagName = ''v1.2.3'', Name = [], Body = [], HTMLURL = []\<rparr>"
  let ?run = "getLatestVersionGitHubImpl ?env ''owner/repo'' ''http://127.0.0.1:8080''"
  have sent: "?run = (fst ?run, [?req])"
    by (simp add: mock_lookup_defs)
  have "fst ?run = Inr (if hd ''v1.2.3'' = CHR ''v'' then tl ''v1.2.3'' else ''v1.2.3'')"
    by (rule lookup_strips_one_v [OF sent, of ?resp ?info])
       (simp_all add: mock_server_def mock_Decode_release_def)
  then have "fst ?run = Inr ''1.2.3''" by simp
  with sent show ?thesis by simp
qed

text \<open>
  C4. An identifier without \<open>/\<close> is rejected with the validation failure, for every
  environment: the result does not depend on the URL parser or on the server, and the
  list of requests is empty.
\<close>

theorem lookup_rejects_identifier_without_slash:
  assumes "CHR ''/'' \<notin> set appIdentifier"
  shows "getLatestVersionGitHubImpl env appIdentifier apiBaseURL =
     (Inl (ValidationError (''invalid application identifier: expected '' @
             quoted ''owner/repo'' @ '', got '' @ quoted appIdentifier)), [])"
  using assms by (simp add: lookup_invalid Contains_char)

theorem lookup_rejects_identifier_without_slash_witness:
  "CHR ''/'' \<notin> set ''ownerrepo'' \<and>
   getLatestVersionGitHubImpl
     (mock_server \<lparr>StatusCode = 200, RespBody = body_release ''v1.2.3''\<rparr>) ''ownerrepo'' [] =
     (Inl (ValidationError (''invalid application identifier: expected '' @
             quoted ''owner/repo'' @ '', got '' @ quoted ''ownerrepo'')), [])"
proof -
  have h: "CHR ''/'' \<notin> set ''ownerrepo''" by simp
  show ?thesis
    using h lookup_rejects_identifier_without_slash [OF h] by blast
qed

text \<open>
  C5, as the specification states it: an identifier with more than one \<open>/\<close> fails
  validation and no request is issued. The identifier \<open>a/b/c\<close> has two, passes, and
  its request reaches the server.
\<close>

theorem lookup_accepts_two_slashes:
  "count_list ''a/b/c'' CHR ''/'' = 2 \<and>
   getLatestVersionGitHubImpl
     (mock_server \<lparr>StatusCode = 200, RespBody = body_release ''v1.2.3''\<rparr>)
     ''a/b/c'' ''http://127.0.0.1:8080'' =
   (Inr ''1.2.3'', [lookup_request ''http://127.0.0.1:8080/repos/a/b/c/releases/latest''])"
  by (simp add: mock_lookup_defs)

text \<open>
  C5, amended. Validation rejects an identifier exactly when it contains no \<open>/\<close>:
  every identifier with at least one \<open>/\<close>, also with several, passes validation.
\<close>

theorem lookup_validation_is_presence_of_slash:
  "(\<exists>m. fst (getLatestVersionGitHubImpl env appIdentifier apiBaseURL) = Inl (ValidationError m))
      \<longleftrightarrow> CHR ''/'' \<notin> set appIdentifier"
proof (cases "Contains appIdentifier ''/''")
  case True
  then show ?thesis
    using lookup_valid_not_validation [OF True, of env apiBaseURL]
    by (simp add: Contains_char)
next
  case False
  then show ?thesis
    using lookup_invalid [OF False, of env apiBaseURL]
    by (simp add: Contains_char)
qed

theorem lookup_validation_is_presence_of_slash_witness:
  "CHR ''/'' \<in> set ''a/b/c'' \<and>
   \<not> (\<exists>m. fst (getLatestVersionGitHubImpl
                (mock_server \<lparr>StatusCode = 404, RespBody = body_not_found\<rparr>) ''a/b/c'' []) =
            Inl (ValidationError m)) \<and>
   CHR ''/'' \<notin> set ''abc'' \<and>
   (\<exists>m. fst (getLatestVersionGitHubImpl
             (mock_server \<lparr>StatusCode = 404, RespBody = body_not_found\<rparr>) ''abc'' []) =
         Inl (ValidationError m))"
proof -
  let ?env = "mock_server \<lparr>StatusCode = 404, RespBody = body_not_found\<rparr>"
  have yes: "CHR ''/'' \<in> set ''a/b/c''" and no: "CHR ''/'' \<notin> set ''abc''"
    by simp_all
  show ?thesis
    using yes no
      lookup_validation_is_presence_of_slash [of ?env "''a/b/c''" "[]"]
      lookup_validation_is_presence_of_slash [of ?env "''abc''" "[]"]
    by blast
qed

text \<open>
  C8. When the server answers the request of the lookup with a status other than 200,
  the lookup fails with an API error. Its message contains the status code in decimal
  and the identifier. When the body decodes to an error object with a non-empty
  \<open>message\<close>, the message is contained, and so is \<open>documentation_url\<close> when it is
  non-empty; otherwise the URL of the request is contained. (After decoding, a field
  that is absent and a field that is empty are the same value.)
\<close>

theorem lookup_non_200_is_api_error:
  assumes "getLatestVersionGitHubImpl env appIdentifier apiBaseURL = (res, [req])"
    and "client_Do env req = Inr resp"
    and "StatusCode resp \<noteq> 200"
  shows "\<exists>m. res = Inl (APIError m) \<and>
           Contains m (Itoa (StatusCode resp)) \<and> Contains m appIdentifier \<and>
           URL req = request_url appIdentifier apiBaseURL \<and>
           (case Decode_ghError env (RespBody resp) of
              Inr ghe \<Rightarrow>
                (if Message ghe \<noteq> [] then
                   Contains m (Message ghe) \<and>
                   (DocumentationURL ghe \<noteq> [] \<longrightarrow> Contains m (DocumentationURL ghe))
                 else Contains m (URL req))
            | Inl err \<Rightarrow> Contains m (URL req))"
proof -
  let ?m = "api_error_message env appIdentifier (URL req) resp"
  have res: "res = Inl (APIError ?m)"
    using lookup_response [OF assms(1,2)] assms(3) by simp
  have url: "URL req = request_url appIdentifier apiBaseURL"
    using lookup_request_sent [OF assms(1)] by (simp add: lookup_request_def)
  have tail: "case Decode_ghError env (RespBody resp) of
              Inr ghe \<Rightarrow>
                (if Message ghe \<noteq> [] then
                   Contains ?m (Message ghe) \<and>
                   (DocumentationURL ghe \<noteq> [] \<longrightarrow> Contains ?m (DocumentationURL ghe))
                 else Contains ?m (URL req))
            | Inl err \<Rightarrow> Contains ?m (URL req)"
    by (simp add: api_error_message_contains split: sum.split)
  show ?thesis
    using res url tail api_error_message_contains(1,2) [of env appIdentifier "URL req" resp]
    by blast
qed

theorem lookup_non_200_is_api_error_witness:
  "\<exists>m. getLatestVersionGitHubImpl
          (mock_server \<lparr>StatusCode = 404, RespBody = body_not_found\<rparr>)
          ''owner/nonexistent_repo'' [] =
        (Inl (APIError m),
         [lookup_request ''https://api.github.com/repos/owner/nonexistent_repo/releases/latest'']) \<and>
       Contains m ''404'' \<and> Contains m ''owner/nonexistent_repo'' \<and>
       Contains m ''Not Found'' \<and> Contains m ''https://docs.github.com/rest''"
proof -
  let ?resp = "\<lparr>StatusCode = 404, RespBody = body_not_found\<rparr>"
  let ?env = "mock_server ?resp"
  let ?req = "lookup_request ''https://api.github.com/repos/owner/nonexistent_repo/releases/latest''"
  let ?run = "getLatestVersionGitHubImpl ?env ''owner/nonexistent_repo'' []"
  have sent: "?run = (fst ?run, [?req])"
    by (simp add: mock_lookup_defs)
  have do: "client_Do ?env ?req = Inr ?resp" by (simp add: mock_server_def)
  have st: "StatusCode ?resp \<noteq> 200" by simp
  have dec: "Decode_ghError ?env (RespBody ?resp) =
      Inr \<lparr>Message = ''Not Found'', DocumentationURL = ''https://docs.github.com/rest''\<rparr>"
    by (simp add: mock_server_def mock_Decode_ghError_def)
  have itoa: "Itoa 404 = ''404''" by code_simp
  from lookup_non_200_is_api_error [OF sent do st]
  obtain m where m: "fst ?run = Inl (APIError m)" "Contains m (Itoa (StatusCode ?resp))"
    "Contains m ''owner/nonexistent_repo''"
    "Contains m ''Not Found''" "Contains m ''https://docs.github.com/rest''"
    unfolding dec by auto
  have "?run = (Inl (APIError m), [?req])"
    using sent m(1) by simp
  moreover have "Contains m ''404''"
    using m(2) itoa by simp
  ultimately show ?thesis
    using m(3-5) by blast
qed

text \<open>
  C9. When the server answers with status 200 and the \<open>tag_name\<close> of the release is
  exactly \<open>v\<close>, the lookup succeeds with the empty string: the tag is tested for
  emptiness before the prefix is removed.
\<close>

theorem lookup_tag_v_gives_empty_version:
  assumes "getLatestVersionGitHubImpl env appIdentifier apiBaseURL = (res, [req])"
    and "client_Do env req = Inr resp"
    and "StatusCode resp = 200"
    and "Decode_release env (RespBody resp) = Inr releaseInfo"
    and "TagName releaseInfo = ''v''"
  shows "res = Inr []"
  using lookup_response [OF assms(1,2)] assms(3-5)
  by (simp add: TrimPrefix_def HasPrefix_def)

theorem lookup_tag_v_gives_empty_version_witness:
  "getLatestVersionGitHubImpl
     (mock_server \<lparr>StatusCode = 200, RespBody = body_release ''v''\<rparr>)
     ''owner/repo'' [] =
   (Inr [], [lookup_request ''https://api.github.com/repos/owner/repo/releases/latest''])"
proof -
  let ?resp = "\<lparr>StatusCode = 200, RespBody = body_release ''v''\<rparr>"
  let ?env = "mock_server ?resp"
  let ?req = "lookup_request ''https://api.github.com/repos/owner/repo/releases/latest''"
  let ?info = "\<lparr>TagName = ''v'', Name = [], Body = [], HTMLURL = []\<rparr>"
  let ?run = "getLatestVersionGitHubImpl ?env ''owner/repo'' []"
  have sent: "?run = (fst ?run, [?req])"
    by (simp add: mock_lookup_defs)
  have "fst ?run = Inr []"
    by (rule lookup_tag_v_gives_empty_version [OF sent, of ?resp ?info])
       (simp_all add: mock_server_def mock_Decode_release_def body_release_def dq_def)
  with sent show ?thesis by simp
qed

section \<open>Properties of the check flow\<close>

lemma byte_order_total: "(a, b) \<in> byte_order \<or> a = b \<or> (b, a) \<in> byte_order"
  by (auto simp: byte_order_def)

lemma byte_order_asym: "asym byte_order"
  by (auto simp: byte_order_def intro!: asymI)

lemma lexord_byte_order_cases:
  "(s = t \<or> (s, t) \<in> lexord byte_order \<or> (t, s) \<in> lexord byte_order) \<and>
   \<not> (s = t \<and> (s, t) \<in> lexord byte_order) \<and>
   \<not> (s = t \<and> (t, s) \<in> lexord byte_order) \<and>
   \<not> ((s, t) \<in> lexord byte_order \<and> (t, s) \<in> lexord byte_order)"
proof -
  have irr: "(u, u) \<notin> lexord byte_order" for u
    by (rule lexord_irreflexive) (simp add: byte_order_def)
  have lin: "(s, t) \<in> lexord byte_order \<or> s = t \<or> (t, s) \<in> lexord byte_order"
    by (rule lexord_linear) (simp add: byte_order_total)
  have asy: "(s, t) \<in> lexord byte_order \<Longrightarrow> (t, s) \<notin> lexord byte_order"
    by (rule lexord_asymmetric [OF byte_order_asym])
  show ?thesis using irr lin asy by blast
qed

lemma started_checkAppVersion:
  "List.map_filter started (checkAppVersion getLatestVersion appName currentVersion) = [appName]"
  by (simp add: checkAppVersion_def Let_def split: sum.split)

lemma map_filter_append:
  "List.map_filter f (xs @ ys) = List.map_filter f xs @ List.map_filter f ys"
  by (simp add: map_filter_def)

lemma range_config_concat:
  "set ks \<subseteq> dom config \<Longrightarrow>
   range_config getLatestVersion config ks =
     concat (map (\<lambda>appName. checkAppVersion getLatestVersion appName (the (config appName))) ks)"
  by (induction ks) auto

lemma started_range_config:
  "set ks \<subseteq> dom config \<Longrightarrow>
   List.map_filter started (range_config getLatestVersion config ks) = ks"
  by (induction ks) (auto simp: map_filter_append started_checkAppVersion)

lemma count_list_distinct: "distinct xs \<Longrightarrow> x \<in> set xs \<Longrightarrow> count_list xs x = 1"
  by (induction xs) auto

lemma ancestors_test_file: "ancestors ''test_versions.toml'' = []"
  by (simp add: ancestors_def)

lemma utf8_check_table: "utf8_valid (toml_lines check_table)"
  by (simp add: utf8_valid_def toml_lines_def toml_line_def toml_key_def bare_key_chars_def
      dq_def check_table_def)

lemma load_check_disk: "loadConfig check_store check_disk = Inr (map_of check_table)"
  by (simp add: loadConfig_def check_store_def check_disk_def empty_disk_def mock_store_def
      mock_Unmarshal_def os_Stat_def os_IsNotExist_def os_ReadFile_def ancestors_test_file
      utf8_check_table)

text \<open>
  C1. For an application whose name has a \<open>/\<close>, recorded at version \<open>current\<close>, and a
  lookup that succeeds with \<open>latest\<close>, the check prints the line \<open>Checking\<close> and then
  one verdict: up to date when \<open>latest\<close> equals \<open>current\<close>, update available when
  \<open>latest\<close> is greater than \<open>current\<close> in the lexicographic order of the bytes, and
  version discrepancy when it is smaller. One of the three cases always holds.
\<close>

theorem checkAppVersion_compares_lexicographically:
  assumes "CHR ''/'' \<in> set appName"
    and "getLatestVersion appName [] = Inr latest"
  shows "(latest = current \<longrightarrow>
            checkAppVersion getLatestVersion appName current =
              [Checking appName, UpToDate current latest]) \<and>
         ((current, latest) \<in> lexord byte_order \<longrightarrow>
            checkAppVersion getLatestVersion appName current =
              [Checking appName, UpdateAvailable current latest]) \<and>
         ((latest, current) \<in> lexord byte_order \<longrightarrow>
            checkAppVersion getLatestVersion appName current =
              [Checking appName, VersionDiscrepancy current latest]) \<and>
         (latest = current \<or> (current, latest) \<in> lexord byte_order \<or>
            (latest, current) \<in> lexord byte_order)"
  using assms lexord_byte_order_cases [of current latest]
  by (auto simp: checkAppVersion_def Contains_char string_less_lexord)

theorem checkAppVersion_compares_lexicographically_witness:
  "checkAppVersion mock_getLatestVersion ''owner/appA'' ''1.0.0'' =
     [Checking ''owner/appA'', UpToDate ''1.0.0'' ''1.0.0''] \<and>
   checkAppVersion mock_getLatestVersion ''owner/appB'' ''1.0.0'' =
     [Checking ''owner/appB'', UpdateAvailable ''1.0.0'' ''1.1.0''] \<and>
   checkAppVersion mock_getLatestVersion ''owner/appB'' ''1.2.0'' =
     [Checking ''owner/appB'', VersionDiscrepancy ''1.2.0'' ''1.1.0'']"
proof -
  have a: "CHR ''/'' \<in> set ''owner/appA''" and b: "CHR ''/'' \<in> set ''owner/appB''"
    by simp_all
  have la: "mock_getLatestVersion ''owner/appA'' [] = Inr ''1.0.0''"
    and lb: "mock_getLatestVersion ''owner/appB'' [] = Inr ''1.1.0''"
    by (simp_all add: mock_getLatestVersion_def)
  have up: "(''1.0.0'', ''1.1.0'') \<in> lexord byte_order"
    and down: "(''1.1.0'', ''1.2.0'') \<in> lexord byte_order"
    by (simp_all add: byte_order_def)
  show ?thesis
    using
      checkAppVersion_compares_lexicographically
        [where getLatestVersion = mock_getLatestVersion, OF a la, of "''1.0.0''"]
      checkAppVersion_compares_lexicographically
        [where getLatestVersion = mock_getLatestVersion, OF b lb, of "''1.0.0''"]
      checkAppVersion_compares_lexicographically
        [where getLatestVersion = mock_getLatestVersion, OF b lb, of "''1.2.0''"]
      up down
    by blast
qed

text \<open>
  C2. Checking all applications, when the runtime visits every key of the loaded map
  once, prints the header and then the output of \<open>checkAppVersion\<close> for each
  application in turn, whatever the lookup answers: an application that is skipped or
  whose lookup fails contributes its own lines and the loop goes on. Every tracked
  application opens exactly one check.
\<close>

theorem handleCheckCmd_checks_every_application:
  assumes "loadConfig env d = Inr config"
    and "config \<noteq> Map.empty"
    and "distinct (range_keys config)"
    and "set (range_keys config) = dom config"
  shows "handleCheckCmd env getLatestVersion range_keys [] d =
           Message_CheckingAll #
           concat (map (\<lambda>appName. checkAppVersion getLatestVersion appName (the (config appName)))
                     (range_keys config)) \<and>
         (\<forall>appName \<in> dom config.
            count_list (List.map_filter started
              (handleCheckCmd env getLatestVersion range_keys [] d)) appName = 1)"
proof -
  have sub: "set (range_keys config) \<subseteq> dom config"
    using assms(4) by simp
  have run: "handleCheckCmd env getLatestVersion range_keys [] d =
      Message_CheckingAll # range_config getLatestVersion config (range_keys config)"
    using assms(1,2) by (simp add: handleCheckCmd_def)
  have first: "List.map_filter started (handleCheckCmd env getLatestVersion range_keys [] d) =
      range_keys config"
    by (simp add: run started_range_config [OF sub])
  show ?thesis
    using assms(3,4) by (simp add: first count_list_distinct) (simp add: run range_config_concat [OF sub])
qed

theorem handleCheckCmd_checks_every_application_witness:
  "handleCheckCmd check_store mock_getLatestVersion mock_range_keys [] check_disk =
     [Message_CheckingAll,
      Info_Skipping ''invalidAppC'',
      Checking ''owner/app4'', Newline,
      Error_FailedToCheck ''owner/app4'' (NetworkError ''mock network error''),
      Checking ''owner/appB'', UpdateAvailable ''0.5.0'' ''1.1.0'',
      Checking ''owner/appA'', UpToDate ''1.0.0'' ''1.0.0''] \<and>
   count_list (List.map_filter started
     (handleCheckCmd check_store mock_getLatestVersion mock_range_keys [] check_disk))
     ''owner/appA'' = 1"
proof -
  let ?config = "map_of check_table"
  have ne: "?config \<noteq> Map.empty"
    by (simp add: check_table_def)
  have keys: "mock_range_keys ?config = [''invalidAppC'', ''owner/app4'', ''owner/appB'', ''owner/appA'']"
    by (simp add: mock_range_keys_def check_table_def)
  have dist: "distinct (mock_range_keys ?config)"
    by (simp add: keys)
  have dom: "set (mock_range_keys ?config) = dom ?config"
    unfolding keys by (auto simp: check_table_def)
  note inst = handleCheckCmd_checks_every_application
    [where range_keys = mock_range_keys and getLatestVersion = mock_getLatestVersion,
      OF load_check_disk ne dist dom]
  have mem: "''owner/appA'' \<in> dom ?config"
    by (simp add: check_table_def)
  have one: "count_list (List.map_filter started
     (handleCheckCmd check_store mock_getLatestVersion mock_range_keys [] check_disk))
     ''owner/appA'' = 1"
    using inst mem by blast
  have "handleCheckCmd check_store mock_getLatestVersion mock_range_keys [] check_disk =
      Message_CheckingAll #
      concat (map (\<lambda>appName. checkAppVersion mock_getLatestVersion appName (the (?config appName)))
                (mock_range_keys ?config))"
    using inst by blast
  also have "\<dots> = [Message_CheckingAll,
      Info_Skipping ''invalidAppC'',
      Checking ''owner/app4'', Newline,
      Error_FailedToCheck ''owner/app4'' (NetworkError ''mock network error''),
      Checking ''owner/appB'', UpdateAvailable ''0.5.0'' ''1.1.0'',
      Checking ''owner/appA'', UpToDate ''1.0.0'' ''1.0.0'']"
    unfolding keys
    by (simp add: check_table_def checkAppVersion_def mock_getLatestVersion_def HasPrefix_def)
  finally show ?thesis using one by simp
qed

section \<open>Properties of the Version Store\<close>

lemma ancestors_from_longer:
  "q \<in> set (ancestors_from pre s) \<Longrightarrow> length q < length pre + length s"
proof (induction s arbitrary: pre)
  case Nil
  then show ?case by simp
next
  case (Cons c s)
  then have "q = pre \<or> q \<in> set (ancestors_from (pre @ [c]) s)"
    by (auto split: if_splits)
  then show ?case
    using Cons.IH [of "pre @ [c]"] by auto
qed

lemma ancestors_proper: "name \<notin> set (ancestors name)"
  using ancestors_from_longer [of name "[]" name] by (auto simp: ancestors_def)

lemma walk_eq:
  "\<forall>q \<in> set qs. (q \<in> dom (files d') \<longleftrightarrow> q \<in> dom (files d)) \<Longrightarrow>
   dirs d' = dirs d \<Longrightarrow> denied d' = denied d \<Longrightarrow> walk qs d' = walk qs d"
  by (induction qs) simp_all

lemma mkdirs_files: "files (snd (mkdirs qs d)) = files d"
  by (induction qs d rule: mkdirs.induct) simp_all

lemma mkdirs_denied: "denied (snd (mkdirs qs d)) = denied d"
  by (induction qs d rule: mkdirs.induct) simp_all

lemma mkdirs_journal: "journal (snd (mkdirs qs d)) = journal d"
  by (induction qs d rule: mkdirs.induct) simp_all

lemma os_MkdirAll_frame:
  assumes "os_MkdirAll path d = (r, d1)"
  shows "files d1 = files d" and "denied d1 = denied d"
    and "journal d1 = journal d @ [MkdirAll_call path]"
proof -
  let ?d0 = "d\<lparr>journal := journal d @ [MkdirAll_call path]\<rparr>"
  have d1: "d1 = snd (mkdirs (ancestors path @ [path]) ?d0)"
    using assms by (simp add: os_MkdirAll_def)
  show "files d1 = files d" and "denied d1 = denied d"
    and "journal d1 = journal d @ [MkdirAll_call path]"
    unfolding d1 by (simp_all add: mkdirs_files mkdirs_denied mkdirs_journal)
qed

lemma os_WriteFile_success:
  assumes "os_WriteFile name data d = (None, d2)"
  shows "d2 = d\<lparr>journal := journal d @ [WriteFile_call name data],
                 files := (files d)(name \<mapsto> data)\<rparr>"
    and "walk (ancestors name) d = None" and "name \<notin> denied d" and "name \<notin> dirs d"
  using assms
  by (auto simp: os_WriteFile_def Let_def split: option.splits if_splits)

lemma saveConfig_success:
  assumes "saveConfig env config d = (None, d')"
  shows "\<exists>data. toml_Marshal env config = Inr data \<and>
           files d' = (files d)(configFile env \<mapsto> data) \<and>
           journal d' = journal d @ [MkdirAll_call (filepath_Dir env (configFile env)),
                                    WriteFile_call (configFile env) data] \<and>
           configFile env \<notin> denied d' \<and>
           walk (ancestors (configFile env)) d' = None"
proof -
  let ?p = "configFile env"
  from assms obtain data where data: "toml_Marshal env config = Inr data"
    by (auto simp: saveConfig_def split: sum.splits)
  obtain r d1 where mk: "os_MkdirAll (filepath_Dir env ?p) d = (r, d1)"
    by (cases "os_MkdirAll (filepath_Dir env ?p) d") auto
  have wr: "os_WriteFile ?p data d1 = (None, d')"
    using assms data mk
    by (auto simp: saveConfig_def Let_def split: option.splits prod.splits)
  note w = os_WriteFile_success [OF wr] and m = os_MkdirAll_frame [OF mk]
  have "walk (ancestors ?p) d' = walk (ancestors ?p) d1"
    by (rule walk_eq) (use ancestors_proper [of ?p] w(1) in auto)
  then have "walk (ancestors ?p) d' = None"
    using w(2) by simp
  moreover have "files d' = (files d)(?p \<mapsto> data)"
    and "journal d' = journal d @ [MkdirAll_call (filepath_Dir env ?p), WriteFile_call ?p data]"
    and "?p \<notin> denied d'"
    using w m by simp_all
  ultimately show ?thesis
    using data by blast
qed

lemma loadConfig_existing_file:
  assumes "files d (configFile env) = Some data" and "configFile env \<notin> denied d"
    and "walk (ancestors (configFile env)) d = None"
  shows "loadConfig env d =
     (case toml_Unmarshal env data Map.empty of
        Inl err \<Rightarrow> Inl (ConfigParseError (configFile env) err)
      | Inr config \<Rightarrow> Inr config)"
  using assms
  by (auto simp: loadConfig_def os_Stat_def os_IsNotExist_def os_ReadFile_def)


lemma utf8_remove_table: "utf8_valid (toml_lines remove_table)"
  by (simp add: utf8_valid_def toml_lines_def toml_line_def toml_key_def bare_key_chars_def
      dq_def remove_table_def)

lemma remove_store_Unmarshal:
  "toml_Unmarshal remove_store (toml_lines remove_table) Map.empty = Inr (map_of remove_table)"
  by (simp add: remove_store_def mock_store_def mock_Unmarshal_def utf8_remove_table)


lemma load_saved_disk: "loadConfig remove_store saved_disk = Inr (map_of remove_table)"
proof -
  have "files saved_disk (configFile remove_store) = Some (toml_lines remove_table)"
    and "configFile remove_store \<notin> denied saved_disk"
    and "walk (ancestors (configFile remove_store)) saved_disk = None"
    by (simp_all add: saved_disk_def empty_disk_def remove_store_def mock_store_def
        ancestors_test_file)
  from loadConfig_existing_file [OF this] show ?thesis
    by (simp add: remove_store_Unmarshal)
qed




text \<open>
  C7, as the specification states it: when the backing file does not exist,
  \<open>loadConfig\<close> returns the empty mapping and no error. On a disk where \<open>f\<close> is a
  regular file, the backing file \<open>f/versions.toml\<close> does not exist; \<open>os.Stat\<close> fails
  with \<open>ENOTDIR\<close>, which \<open>os.IsNotExist\<close> does not accept, and \<open>loadConfig\<close> returns
  the read error.
\<close>

theorem loadConfig_below_regular_file:
  "files file_f_disk ''f/versions.toml'' = None \<and>
   ''f/versions.toml'' \<notin> dirs file_f_disk \<and>
   os_Stat ''f/versions.toml'' file_f_disk = Some ENOTDIR \<and>
   loadConfig nested_store file_f_disk = Inl (ConfigReadError ''f/versions.toml'' ENOTDIR)"
  by (simp add: loadConfig_def nested_store_def file_f_disk_def empty_disk_def os_Stat_def
      os_IsNotExist_def os_ReadFile_def ancestors_def)

text \<open>
  C7, amended. \<open>loadConfig\<close> returns the empty mapping and no error when \<open>os.Stat\<close>
  reports the file as not existing: the file, or one of its parent directories, is
  missing and every parent before it is a directory that may be searched. When a
  parent is a regular file or may not be searched, when the path names a directory,
  and when the file may not be opened, it returns the read error with the cause; when
  the content of the file does not parse, the parse error. A failure carries no
  mapping.
\<close>

theorem loadConfig_by_disk_state:
  "(walk (ancestors (configFile env)) d = Some ENOENT \<longrightarrow> loadConfig env d = Inr Map.empty) \<and>
   (walk (ancestors (configFile env)) d = None \<and> files d (configFile env) = None \<and>
    configFile env \<notin> dirs d \<longrightarrow> loadConfig env d = Inr Map.empty) \<and>
   (walk (ancestors (configFile env)) d = Some ENOTDIR \<longrightarrow>
      loadConfig env d = Inl (ConfigReadError (configFile env) ENOTDIR)) \<and>
   (walk (ancestors (configFile env)) d = Some EACCES \<longrightarrow>
      loadConfig env d = Inl (ConfigReadError (configFile env) EACCES)) \<and>
   (walk (ancestors (configFile env)) d = None \<and> files d (configFile env) = None \<and>
    configFile env \<in> dirs d \<longrightarrow>
      loadConfig env d = Inl (ConfigReadError (configFile env) EISDIR)) \<and>
   (walk (ancestors (configFile env)) d = None \<and> files d (configFile env) = Some data \<and>
    configFile env \<in> denied d \<longrightarrow>
      loadConfig env d = Inl (ConfigReadError (configFile env) EACCES)) \<and>
   (walk (ancestors (configFile env)) d = None \<and> files d (configFile env) = Some data \<and>
    configFile env \<notin> denied d \<and> toml_Unmarshal env data Map.empty = Inl perr \<longrightarrow>
      loadConfig env d = Inl (ConfigParseError (configFile env) perr)) \<and>
   (walk (ancestors (configFile env)) d = None \<and> files d (configFile env) = Some data \<and>
    configFile env \<notin> denied d \<and> toml_Unmarshal env data Map.empty = Inr config \<longrightarrow>
      loadConfig env d = Inr config)"
  by (intro conjI impI; (elim conjE)?)
     (simp_all add: loadConfig_def os_Stat_def os_IsNotExist_def os_ReadFile_def domIff)

theorem loadConfig_by_disk_state_witness:
  "loadConfig remove_store empty_disk = Inr Map.empty \<and>
   loadConfig nested_store empty_disk = Inr Map.empty \<and>
   loadConfig nested_store file_f_disk = Inl (ConfigReadError ''f/versions.toml'' ENOTDIR) \<and>
   loadConfig remove_store (empty_disk\<lparr>dirs := {''.'', ''test_versions.toml''}\<rparr>) =
     Inl (ConfigReadError ''test_versions.toml'' EISDIR) \<and>
   loadConfig remove_store (empty_disk\<lparr>files := [''test_versions.toml'' \<mapsto> ''anotherApp =''],
                                        denied := {''test_versions.toml''}\<rparr>) =
     Inl (ConfigReadError ''test_versions.toml'' EACCES) \<and>
   loadConfig remove_store (empty_disk\<lparr>files := [''test_versions.toml'' \<mapsto> ''anotherApp ='']\<rparr>) =
     Inl (ConfigParseError ''test_versions.toml'' ''toml: expected key'')"
proof -
  let ?p = "''test_versions.toml''"
  let ?n = "''f/versions.toml''"
  let ?dir = "empty_disk\<lparr>dirs := {''.'', ?p}\<rparr>"
  let ?den = "empty_disk\<lparr>files := [?p \<mapsto> ''anotherApp =''], denied := {?p}\<rparr>"
  let ?bad = "empty_disk\<lparr>files := [?p \<mapsto> ''anotherApp ='']\<rparr>"
  have p: "configFile remove_store = ?p" and n: "configFile nested_store = ?n"
    by (simp_all add: remove_store_def nested_store_def mock_store_def)
  have an: "ancestors ?n = [''f'']"
    by (simp add: ancestors_def)
  have 1: "walk (ancestors ?p) empty_disk = None \<and> files empty_disk ?p = None \<and>
           ?p \<notin> dirs empty_disk"
    by (simp add: ancestors_test_file empty_disk_def)
  have 2: "walk (ancestors ?n) empty_disk = Some ENOENT"
    by (simp add: an empty_disk_def)
  have 3: "walk (ancestors ?n) file_f_disk = Some ENOTDIR"
    by (simp add: an file_f_disk_def empty_disk_def)
  have 4: "walk (ancestors ?p) ?dir = None \<and> files ?dir ?p = None \<and> ?p \<in> dirs ?dir"
    by (simp add: ancestors_test_file empty_disk_def)
  have 5: "walk (ancestors ?p) ?den = None \<and> files ?den ?p = Some ''anotherApp ='' \<and>
           ?p \<in> denied ?den"
    by (simp add: ancestors_test_file empty_disk_def)
  have 6: "walk (ancestors ?p) ?bad = None \<and> files ?bad ?p = Some ''anotherApp ='' \<and>
           ?p \<notin> denied ?bad \<and>
           toml_Unmarshal remove_store ''anotherApp ='' Map.empty = Inl ''toml: expected key''"
    by (simp add: ancestors_test_file empty_disk_def)
       (simp add: remove_store_def mock_store_def mock_Unmarshal_def utf8_valid_def
          toml_lines_def toml_line_def toml_key_def bare_key_chars_def remove_table_def dq_def)
  have a: "loadConfig remove_store empty_disk = Inr Map.empty"
    using 1 loadConfig_by_disk_state
        [of remove_store empty_disk, THEN conjunct2, THEN conjunct1]
    unfolding p by blast
  have b: "loadConfig nested_store empty_disk = Inr Map.empty"
    using 2 loadConfig_by_disk_state [of nested_store empty_disk, THEN conjunct1]
    unfolding n by blast
  have c: "loadConfig nested_store file_f_disk = Inl (ConfigReadError ?n ENOTDIR)"
    using 3 loadConfig_by_disk_state
        [of nested_store file_f_disk, THEN conjunct2, THEN conjunct2, THEN conjunct1]
    unfolding n by blast
  have d: "loadConfig remove_store ?dir = Inl (ConfigReadError ?p EISDIR)"
    using 4 loadConfig_by_disk_state
        [of remove_store ?dir, THEN conjunct2, THEN conjunct2, THEN conjunct2, THEN conjunct2,
          THEN conjunct1]
    unfolding p by blast
  have e: "loadConfig remove_store ?den = Inl (ConfigReadError ?p EACCES)"
    using 5 loadConfig_by_disk_state
        [of remove_store ?den "''anotherApp =''", THEN conjunct2, THEN conjunct2, THEN conjunct2,
          THEN conjunct2, THEN conjunct2, THEN conjunct1]
    unfolding p by blast
  have f: "loadConfig remove_store ?bad = Inl (ConfigParseError ?p ''toml: expected key'')"
    using 6 loadConfig_by_disk_state
        [of remove_store ?bad "''anotherApp =''" "''toml: expected key''", THEN conjunct2,
          THEN conjunct2, THEN conjunct2, THEN conjunct2, THEN conjunct2, THEN conjunct2,
          THEN conjunct1]
    unfolding p by blast
  show ?thesis
    using a b c d e f by blast
qed

text \<open>
  C10. After a successful load: removing an application that is not in the mapping
  prints the notice and leaves the disk as it was, journal included, so nothing was
  written. Removing one that is present hands to \<open>saveConfig\<close> the mapping without
  that key and with every other entry unchanged; when the command reports success, the
  disk differs by one \<open>MkdirAll\<close> and one \<open>WriteFile\<close> of the backing file, which then
  holds that mapping as the library wrote it.
\<close>

theorem handleRemoveCmd_frame:
  assumes "loadConfig env d = Inr config"
  shows "(config appName = None \<longrightarrow>
            handleRemoveCmd env appName d = ([Info_NothingToRemove appName], d)) \<and>
         (config appName \<noteq> None \<longrightarrow>
            (\<exists>config'. config' appName = None \<and>
               (\<forall>k. k \<noteq> appName \<longrightarrow> config' k = config k) \<and>
               snd (handleRemoveCmd env appName d) = snd (saveConfig env config' d) \<and>
               fst (handleRemoveCmd env appName d) =
                 [case fst (saveConfig env config' d) of
                    None \<Rightarrow> Success_Removed appName
                  | Some err \<Rightarrow> Error_CouldNotSaveAfterRemoving appName err])) \<and>
         (config appName \<noteq> None \<and>
          handleRemoveCmd env appName d = ([Success_Removed appName], d') \<longrightarrow>
            (\<exists>data. toml_Marshal env (config(appName := None)) = Inr data \<and>
               files d' = (files d)(configFile env \<mapsto> data) \<and>
               journal d' = journal d @ [MkdirAll_call (filepath_Dir env (configFile env)),
                                        WriteFile_call (configFile env) data]))"
proof (intro conjI impI)
  assume "config appName = None"
  then show "handleRemoveCmd env appName d = ([Info_NothingToRemove appName], d)"
    using assms by (simp add: handleRemoveCmd_def)
next
  assume present: "config appName \<noteq> None"
  let ?config' = "config(appName := None)"
  have run: "handleRemoveCmd env appName d =
      (case saveConfig env ?config' d of
         (Some err, d') \<Rightarrow> ([Error_CouldNotSaveAfterRemoving appName err], d')
       | (None, d') \<Rightarrow> ([Success_Removed appName], d'))"
    using assms present by (auto simp: handleRemoveCmd_def)
  have "snd (handleRemoveCmd env appName d) = snd (saveConfig env ?config' d)"
    and "fst (handleRemoveCmd env appName d) =
                 [case fst (saveConfig env ?config' d) of
                    None \<Rightarrow> Success_Removed appName
                  | Some err \<Rightarrow> Error_CouldNotSaveAfterRemoving appName err]"
    unfolding run by (simp_all split: prod.split option.split)
  moreover have "?config' appName = None" and "\<forall>k. k \<noteq> appName \<longrightarrow> ?config' k = config k"
    by simp_all
  ultimately show "\<exists>config'. config' appName = None \<and>
               (\<forall>k. k \<noteq> appName \<longrightarrow> config' k = config k) \<and>
               snd (handleRemoveCmd env appName d) = snd (saveConfig env config' d) \<and>
               fst (handleRemoveCmd env appName d) =
                 [case fst (saveConfig env config' d) of
                    None \<Rightarrow> Success_Removed appName
                  | Some err \<Rightarrow> Error_CouldNotSaveAfterRemoving appName err]"
    by blast
next
  assume a: "config appName \<noteq> None \<and>
          handleRemoveCmd env appName d = ([Success_Removed appName], d')"
  let ?config' = "config(appName := None)"
  have "saveConfig env ?config' d = (None, d')"
    using assms a by (auto simp: handleRemoveCmd_def split: prod.splits option.splits)
  from saveConfig_success [OF this]
  show "\<exists>data. toml_Marshal env ?config' = Inr data \<and>
               files d' = (files d)(configFile env \<mapsto> data) \<and>
               journal d' = journal d @ [MkdirAll_call (filepath_Dir env (configFile env)),
                                        WriteFile_call (configFile env) data]"
    by auto
qed

theorem handleRemoveCmd_frame_witness:
  "handleRemoveCmd remove_store ''ghostApp'' saved_disk =
     ([Info_NothingToRemove ''ghostApp''], saved_disk) \<and>
   fst (handleRemoveCmd remove_store ''appToRemove'' saved_disk) =
     [Success_Removed ''appToRemove''] \<and>
   files (snd (handleRemoveCmd remove_store ''appToRemove'' saved_disk)) =
     [''test_versions.toml'' \<mapsto> toml_lines [(''anotherApp'', ''2.0.0'')]]"
proof -
  let ?config = "map_of remove_table"
  let ?run = "handleRemoveCmd remove_store ''appToRemove'' saved_disk"
  have absent: "?config ''ghostApp'' = None" and present: "?config ''appToRemove'' \<noteq> None"
    by (simp_all add: remove_table_def)
  have a: "handleRemoveCmd remove_store ''ghostApp'' saved_disk =
     ([Info_NothingToRemove ''ghostApp''], saved_disk)"
    using absent handleRemoveCmd_frame [OF load_saved_disk, of "''ghostApp''", THEN conjunct1]
    by blast
  have m: "toml_Marshal remove_store (?config(''appToRemove'' := None)) =
      Inr (toml_lines [(''anotherApp'', ''2.0.0'')])"
    by (simp add: remove_store_def mock_store_def mock_Marshal_def remove_table_def toml_lines_def)
  from present handleRemoveCmd_frame [OF load_saved_disk, of "''appToRemove''",
      THEN conjunct2, THEN conjunct1]
  obtain config' where c: "config' ''appToRemove'' = None"
      "\<forall>k. k \<noteq> ''appToRemove'' \<longrightarrow> config' k = ?config k"
      "fst ?run = [case fst (saveConfig remove_store config' saved_disk) of
                    None \<Rightarrow> Success_Removed ''appToRemove''
                  | Some err \<Rightarrow> Error_CouldNotSaveAfterRemoving ''appToRemove'' err]"
    by blast
  have "config' = ?config(''appToRemove'' := None)"
    using c(1,2) by (auto simp: fun_eq_iff)
  then have ok: "fst ?run = [Success_Removed ''appToRemove'']"
    using c(3) m
    by (simp add: saveConfig_def)
       (simp add: remove_store_def mock_store_def os_MkdirAll_def os_WriteFile_def
          saved_disk_def empty_disk_def ancestors_test_file ancestors_def Let_def)
  have "?run = ([Success_Removed ''appToRemove''], snd ?run)"
    using ok by (simp add: prod_eq_iff)
  with present handleRemoveCmd_frame [OF load_saved_disk, of "''appToRemove''" "snd ?run",
      THEN conjunct2, THEN conjunct2]
  obtain data where "toml_Marshal remove_store (?config(''appToRemove'' := None)) = Inr data"
    and "files (snd ?run) = (files saved_disk)(configFile remove_store \<mapsto> data)"
    by blast
  with m have "files (snd ?run) = [''test_versions.toml'' \<mapsto> toml_lines [(''anotherApp'', ''2.0.0'')]]"
    by (simp add: saved_disk_def empty_disk_def remove_store_def mock_store_def)
  with a ok show ?thesis by blast
qed

end
